theory Spec2Isabelle
  imports Main "HOL-Library.Word" "HOL-Library.Signed_Division"
begin

section \<open>Machine integers of \<open>time.h\<close>\<close>

text \<open>
  The header states the platform it is written for: \<open>time_t\<close> and \<open>suseconds_t\<close> are
  \<open>long int\<close>. On that platform \<open>long\<close> and \<open>unsigned long\<close> have 64 bits, \<open>int\<close> and
  \<open>unsigned int\<close> have 32. A value of either signedness is a word; \<open>sint\<close> reads it as
  the signed type and \<open>unat\<close>/\<open>uint\<close> as the unsigned one. Conversions between a signed
  type and the unsigned type of the same width keep the bits, \<open>scast\<close> is the sign
  extension of \<open>int\<close> to \<open>long\<close>, \<open>ucast\<close> the truncation of \<open>unsigned long\<close> to \<open>int\<close>.
  Signed overflow, which C++ leaves undefined, is taken as the two's complement
  wrap-around of the machine.
\<close>

type_synonym long = "64 word"
type_synonym ulong = "64 word"
type_synonym cint = "32 word"
type_synonym cuint = "32 word"

definition MAX_USECS :: ulong where
  "MAX_USECS = 1000000"

text \<open>\<open>a / b\<close> and \<open>a % b\<close> on \<open>long\<close>: the quotient truncates towards zero.\<close>

definition long_div :: "long \<Rightarrow> long \<Rightarrow> long" where
  "long_div a b = word_of_int (sint a sdiv sint b)"

definition long_mod :: "long \<Rightarrow> long \<Rightarrow> long" where
  "long_mod a b = word_of_int (sint a smod sint b)"

section \<open>\<open>struct timeval\<close> and the host's macros\<close>

record timeval =
  tv_sec :: long
  tv_usec :: long

text \<open>
  Modelled from the spec: the macros \<open>timeradd\<close> and \<open>timersub\<close> of the host's
  \<open>sys/time.h\<close>, which \<open>time.h\<close> calls and does not define. The spec describes them
  as the host's add/subtract-with-carry primitive: the fields are combined one by one
  and a single carry or borrow of one second brings the microseconds back into range.
\<close>

definition timeradd :: "timeval \<Rightarrow> timeval \<Rightarrow> timeval" where
  "timeradd a b =
     (let sec = tv_sec a + tv_sec b;
          usec = tv_usec a + tv_usec b
      in if 1000000 \<le> sint usec
         then \<lparr>tv_sec = sec + 1, tv_usec = usec - 1000000\<rparr>
         else \<lparr>tv_sec = sec, tv_usec = usec\<rparr>)"

definition timersub :: "timeval \<Rightarrow> timeval \<Rightarrow> timeval" where
  "timersub a b =
     (let sec = tv_sec a - tv_sec b;
          usec = tv_usec a - tv_usec b
      in if sint usec < 0
         then \<lparr>tv_sec = sec - 1, tv_usec = usec + 1000000\<rparr>
         else \<lparr>tv_sec = sec, tv_usec = usec\<rparr>)"

section \<open>class \<open>Time\<close>\<close>

text \<open>The class has one data member, \<open>struct timeval _t\<close>.\<close>

record Time =
  Time_t :: timeval

datatype error = DivisionByZero

subsection \<open>Constructors\<close>

definition Time_default :: Time where
  "Time_default = \<lparr>Time_t = \<lparr>tv_sec = 0, tv_usec = 0\<rparr>\<rparr>"

definition Time_copy :: "Time \<Rightarrow> Time" where
  "Time_copy t = \<lparr>Time_t = \<lparr>tv_sec = tv_sec (Time_t t), tv_usec = tv_usec (Time_t t)\<rparr>\<rparr>"

definition Time_of_timeval :: "timeval \<Rightarrow> Time" where
  "Time_of_timeval tv = \<lparr>Time_t = tv\<rparr>"

text \<open>\<open>explicit Time(unsigned long micros)\<close>: unsigned division and remainder.\<close>

definition Time_of_micros :: "ulong \<Rightarrow> Time" where
  "Time_of_micros micros =
     \<lparr>Time_t = \<lparr>tv_sec = micros div MAX_USECS, tv_usec = micros mod MAX_USECS\<rparr>\<rparr>"

text \<open>\<open>explicit Time(const time_t secondsSinceEpoch, suseconds_t micros = 0)\<close>.\<close>

definition Time_of :: "long \<Rightarrow> long \<Rightarrow> Time" where
  "Time_of secondsSinceEpoch micros =
     \<lparr>Time_t = \<lparr>tv_sec = secondsSinceEpoch, tv_usec = micros\<rparr>\<rparr>"

subsection \<open>Accessors and relational operators\<close>

definition seconds :: "Time \<Rightarrow> long" where
  "seconds t = tv_sec (Time_t t)"

definition micros :: "Time \<Rightarrow> long" where
  "micros t = tv_usec (Time_t t)"

definition millis :: "Time \<Rightarrow> long" where
  "millis t = long_div (tv_usec (Time_t t)) 1000"

text \<open>
  \<open>in_micros\<close>: \<open>MAX_USECS\<close> is \<open>unsigned long\<close>, so the product and the sum are
  computed modulo \<open>2 ^ 64\<close>; the result is returned as the signed \<open>suseconds_t\<close>.
\<close>

definition in_micros :: "Time \<Rightarrow> long" where
  "in_micros t = tv_sec (Time_t t) * MAX_USECS + tv_usec (Time_t t)"

definition op_eq :: "Time \<Rightarrow> Time \<Rightarrow> bool" where
  "op_eq a rhs \<longleftrightarrow> in_micros a = in_micros rhs"

definition op_ne :: "Time \<Rightarrow> Time \<Rightarrow> bool" where
  "op_ne a rhs \<longleftrightarrow> \<not> op_eq a rhs"

definition op_ge :: "Time \<Rightarrow> Time \<Rightarrow> bool" where
  "op_ge a rhs \<longleftrightarrow> sint (in_micros rhs) \<le> sint (in_micros a)"

definition op_le :: "Time \<Rightarrow> Time \<Rightarrow> bool" where
  "op_le a rhs \<longleftrightarrow> sint (in_micros a) \<le> sint (in_micros rhs)"

definition op_gt :: "Time \<Rightarrow> Time \<Rightarrow> bool" where
  "op_gt a rhs \<longleftrightarrow> sint (in_micros rhs) < sint (in_micros a)"

definition op_lt :: "Time \<Rightarrow> Time \<Rightarrow> bool" where
  "op_lt a rhs \<longleftrightarrow> sint (in_micros a) < sint (in_micros rhs)"

subsection \<open>Compound assignments\<close>

text \<open>Each compound assignment returns the new value of the receiver.\<close>

definition op_assign :: "Time \<Rightarrow> Time \<Rightarrow> Time" where
  "op_assign this rhs = this\<lparr>Time_t := Time_t rhs\<rparr>"

definition op_add_assign :: "Time \<Rightarrow> Time \<Rightarrow> Time" where
  "op_add_assign this rhs =
     (let result = timeradd (Time_t this) (Time_t rhs)
      in \<lparr>Time_t = \<lparr>tv_sec = tv_sec result, tv_usec = tv_usec result\<rparr>\<rparr>)"

definition op_sub_assign :: "Time \<Rightarrow> Time \<Rightarrow> Time" where
  "op_sub_assign this rhs =
     (let result = timersub (Time_t this) (Time_t rhs)
      in \<lparr>Time_t = \<lparr>tv_sec = tv_sec result, tv_usec = tv_usec result\<rparr>\<rparr>)"

text \<open>
  \<open>operator /=\<close>. The test and the quotient of the seconds are signed; \<open>remainder\<close> and
  \<open>micros\<close> are \<open>unsigned long\<close>, so the denominator is converted to \<open>unsigned long\<close>
  for the last division, which is unsigned. A zero denominator divides by zero in
  either branch.
\<close>

definition op_div_assign :: "Time \<Rightarrow> cint \<Rightarrow> error + Time" where
  "op_div_assign this denominator =
     (let t = Time_t this; d = (scast denominator :: long)
      in if d = 0 then Inl DivisionByZero
         else if sint d \<le> sint (tv_sec t)
         then (let remainder = long_mod (tv_sec t) d;
                   micros = remainder * MAX_USECS + tv_usec t
               in Inr \<lparr>Time_t = \<lparr>tv_sec = long_div (tv_sec t) d, tv_usec = micros div d\<rparr>\<rparr>)
         else (let micros = tv_sec t * MAX_USECS + tv_usec t
               in Inr \<lparr>Time_t = \<lparr>tv_sec = 0, tv_usec = micros div d\<rparr>\<rparr>))"

text \<open>
  \<open>operator *=\<close>. The product of the microseconds is a \<open>long\<close> stored in an
  \<open>unsigned long\<close>; \<open>secsToAdd\<close> is an \<open>int\<close>. The seconds that are multiplied are those
  of the local \<open>r\<close>, which the default constructor has just set to zero.
\<close>

definition op_mul_assign :: "Time \<Rightarrow> cint \<Rightarrow> Time" where
  "op_mul_assign this multiplier =
     (let r = Time_t Time_default;
          micros = tv_usec (Time_t this) * scast multiplier;
          secsToAdd = (if MAX_USECS < micros then ucast (micros div MAX_USECS) else 0 :: cint);
          r = r\<lparr>tv_usec := (if MAX_USECS < micros then micros mod MAX_USECS else micros)\<rparr>;
          r = r\<lparr>tv_sec := tv_sec r * scast multiplier\<rparr>;
          r = r\<lparr>tv_sec := tv_sec r + scast secsToAdd\<rparr>
      in \<lparr>Time_t = r\<rparr>)"

subsection \<open>Binary operators\<close>

definition op_add :: "Time \<Rightarrow> Time \<Rightarrow> Time" where
  "op_add t1 t2 = op_add_assign (Time_copy t1) t2"

definition op_add_offset :: "Time \<Rightarrow> ulong \<Rightarrow> Time" where
  "op_add_offset t1 offset = (let r = Time_of_micros offset in op_add t1 r)"

definition op_sub :: "Time \<Rightarrow> Time \<Rightarrow> Time" where
  "op_sub t1 t2 = op_sub_assign (Time_copy t1) t2"

definition op_sub_offset :: "Time \<Rightarrow> ulong \<Rightarrow> Time" where
  "op_sub_offset t1 offset = (let r = Time_of_micros offset in op_sub t1 r)"

text \<open>
  \<open>operator /\<close> and \<open>operator *\<close> take an \<open>unsigned int\<close> and pass it to the compound
  assignment, whose parameter is an \<open>int\<close>: the bits are kept.
\<close>

definition op_div :: "Time \<Rightarrow> cuint \<Rightarrow> error + Time" where
  "op_div t denominator = op_div_assign (Time_copy t) denominator"

definition op_mul :: "Time \<Rightarrow> cuint \<Rightarrow> Time" where
  "op_mul t multiplier = op_mul_assign (Time_copy t) multiplier"

text \<open>The invariant of the spec: the microseconds lie in \<open>[0, 1000000)\<close>.\<close>

definition normalized :: "Time \<Rightarrow> bool" where
  "normalized t \<longleftrightarrow> 0 \<le> sint (micros t) \<and> sint (micros t) < 1000000"

section \<open>Output streams\<close>

text \<open>
  The part of \<open>std::ostream\<close> that the inserters of \<open>time.h\<close> use: the characters
  written so far, the field width, the fill character and the adjustment. Every
  formatted insertion pads its text to the field width and resets the width to zero;
  the fill character and the adjustment stay until they are set again. Numbers are
  written in decimal, as a stream does whose base and sign flags were left alone.
\<close>

datatype adjustfield = adjust_none | adjust_left | adjust_right | adjust_internal

record ostream =
  buf :: string
  width :: nat
  fill :: char
  adjust :: adjustfield

definition ostream_init :: ostream where
  "ostream_init = \<lparr>buf = [], width = 0, fill = CHR '' '', adjust = adjust_none\<rparr>"

definition setw :: "nat \<Rightarrow> ostream \<Rightarrow> ostream" where
  "setw n os = os\<lparr>width := n\<rparr>"

definition setfill :: "char \<Rightarrow> ostream \<Rightarrow> ostream" where
  "setfill c os = os\<lparr>fill := c\<rparr>"

definition set_left :: "ostream \<Rightarrow> ostream" where
  "set_left os = os\<lparr>adjust := adjust_left\<rparr>"

definition set_right :: "ostream \<Rightarrow> ostream" where
  "set_right os = os\<lparr>adjust := adjust_right\<rparr>"

text \<open>
  Padding of a text that starts with \<open>k\<close> sign characters: after the text when the
  adjustment is left, between sign and digits when it is internal, before the text
  otherwise.
\<close>

definition pad :: "ostream \<Rightarrow> nat \<Rightarrow> string \<Rightarrow> string" where
  "pad os k s =
     (let p = replicate (width os - length s) (fill os)
      in case adjust os of
           adjust_left \<Rightarrow> s @ p
         | adjust_internal \<Rightarrow> take k s @ p @ drop k s
         | _ \<Rightarrow> p @ s)"

definition insert_text :: "nat \<Rightarrow> string \<Rightarrow> ostream \<Rightarrow> ostream" where
  "insert_text k s os = os\<lparr>buf := buf os @ pad os k s, width := 0\<rparr>"

text \<open>The character of a decimal digit \<open>n < 10\<close>.\<close>

definition digit :: "nat \<Rightarrow> char" where
  "digit n = ''0123456789'' ! n"

function decimal :: "nat \<Rightarrow> string" where
  "decimal n = (if n < 10 then [digit n] else decimal (n div 10) @ [digit (n mod 10)])"
  by pat_completeness auto
termination
  by (relation "measure (\<lambda>n. n)") auto

declare decimal.simps [simp del]

definition put_char :: "char \<Rightarrow> ostream \<Rightarrow> ostream" where
  "put_char c os = insert_text 0 [c] os"

definition put_string :: "string \<Rightarrow> ostream \<Rightarrow> ostream" where
  "put_string s os = insert_text 0 s os"

definition put_ulong :: "ulong \<Rightarrow> ostream \<Rightarrow> ostream" where
  "put_ulong n os = insert_text 0 (decimal (unat n)) os"

definition put_long :: "long \<Rightarrow> ostream \<Rightarrow> ostream" where
  "put_long n os =
     (if sint n < 0 then insert_text 1 (CHR ''-'' # decimal (nat (- sint n))) os
      else insert_text 0 (decimal (nat (sint n))) os)"

section \<open>class \<open>Duration\<close>\<close>

text \<open>
  The data members are a \<open>struct timeval\<close> and a \<open>bool\<close>; the constructor initialises
  the first from the \<open>_t\<close> of its argument.
\<close>

record Duration =
  Duration_t :: timeval
  Duration_su :: bool

definition Duration_of :: "Time \<Rightarrow> bool \<Rightarrow> Duration" where
  "Duration_of t showMicros = \<lparr>Duration_t = Time_t t, Duration_su = showMicros\<rparr>"

definition MINUTE :: ulong where
  "MINUTE = 60"

definition HOUR :: ulong where
  "HOUR = MINUTE * 60"

definition DAY :: ulong where
  "DAY = HOUR * 24"

text \<open>
  The inserter of a \<open>Duration\<close>. \<open>s\<close> is a \<open>time_t\<close> and the three constants are
  \<open>unsigned long\<close>, so every quotient and remainder is unsigned; the quotients are
  written as \<open>unsigned long\<close>, the last \<open>s\<close> and the microseconds as \<open>long\<close>.
\<close>

definition insert_Duration :: "Duration \<Rightarrow> ostream \<Rightarrow> ostream" where
  "insert_Duration d os =
     (let s = tv_sec (Duration_t d);
          (os, s) = (if s div DAY \<noteq> 0
                     then (put_string ''d '' (put_ulong (s div DAY) os), s mod DAY)
                     else (os, s));
          os = set_right os;
          os = put_char CHR '':'' (put_ulong (s div HOUR) (setfill CHR ''0'' os));
          s = s mod HOUR;
          os = put_char CHR '':'' (put_ulong (s div MINUTE) (setw 2 os));
          s = s mod MINUTE;
          os = put_long s (setw 2 os);
          os = (if Duration_su d
                then put_long (tv_usec (Duration_t d))
                       (setfill CHR ''0'' (setw 6 (put_char CHR ''.'' os)))
                else os)
      in setfill CHR '' '' os)"

text \<open>What a fresh stream holds after a \<open>Duration\<close> was written to it.\<close>

definition render :: "Duration \<Rightarrow> string" where
  "render d = buf (insert_Duration d ostream_init)"

section \<open>Objects in memory\<close>

text \<open>
  \<open>Time\<close> and \<open>Duration\<close> objects live at addresses. The member functions of \<open>Time\<close>
  that change the receiver take it, and a \<open>Time\<close> argument, by reference: here by
  address. The constructor of \<open>Duration\<close> takes its \<open>Time\<close> by reference as well and
  stores the \<open>timeval\<close> read through it, not the address. The clock read by
  \<open>gettimeofday\<close> is a parameter of the three functions that call it.
\<close>

type_synonym addr = nat

datatype object = TimeObj Time | DurationObj Duration

type_synonym store = "addr \<rightharpoonup> object"

datatype fault = NotATime addr | Arith error

datatype mutation =
    AddAssign addr
  | SubAssign addr
  | MulAssign cint
  | DivAssign cint
  | Assign addr
  | Now timeval
  | Future timeval cint
  | Past timeval cint

definition time_at :: "store \<Rightarrow> addr \<Rightarrow> fault + Time" where
  "time_at st p = (case st p of Some (TimeObj t) \<Rightarrow> Inr t | _ \<Rightarrow> Inl (NotATime p))"

definition now :: "timeval \<Rightarrow> Time \<Rightarrow> Time" where
  "now clock this = this\<lparr>Time_t := clock\<rparr>"

definition future :: "timeval \<Rightarrow> Time \<Rightarrow> cint \<Rightarrow> Time" where
  "future clock this secondsInFuture =
     this\<lparr>Time_t := clock\<lparr>tv_sec := tv_sec clock + scast secondsInFuture\<rparr>\<rparr>"

definition past :: "timeval \<Rightarrow> Time \<Rightarrow> cint \<Rightarrow> Time" where
  "past clock this secondsInPast =
     this\<lparr>Time_t := clock\<lparr>tv_sec := tv_sec clock - scast secondsInPast\<rparr>\<rparr>"

text \<open>The new value of the receiver \<open>this\<close> under one mutation.\<close>

fun apply_mutation :: "store \<Rightarrow> Time \<Rightarrow> mutation \<Rightarrow> fault + Time" where
  "apply_mutation st this (AddAssign r) =
     (case time_at st r of Inl f \<Rightarrow> Inl f | Inr rhs \<Rightarrow> Inr (op_add_assign this rhs))"
| "apply_mutation st this (SubAssign r) =
     (case time_at st r of Inl f \<Rightarrow> Inl f | Inr rhs \<Rightarrow> Inr (op_sub_assign this rhs))"
| "apply_mutation st this (MulAssign m) = Inr (op_mul_assign this m)"
| "apply_mutation st this (DivAssign d) =
     (case op_div_assign this d of Inl e \<Rightarrow> Inl (Arith e) | Inr t \<Rightarrow> Inr t)"
| "apply_mutation st this (Assign r) =
     (case time_at st r of Inl f \<Rightarrow> Inl f | Inr rhs \<Rightarrow> Inr (op_assign this rhs))"
| "apply_mutation st this (Now clock) = Inr (now clock this)"
| "apply_mutation st this (Future clock n) = Inr (future clock this n)"
| "apply_mutation st this (Past clock n) = Inr (past clock this n)"

text \<open>A mutation of the \<open>Time\<close> at address \<open>p\<close> writes the new value back to \<open>p\<close>.\<close>

definition mutate :: "store \<Rightarrow> addr \<Rightarrow> mutation \<Rightarrow> fault + store" where
  "mutate st p m =
     (case time_at st p of
        Inl f \<Rightarrow> Inl f
      | Inr this \<Rightarrow>
          (case apply_mutation st this m of
             Inl f \<Rightarrow> Inl f
           | Inr t \<Rightarrow> Inr (st(p \<mapsto> TimeObj t))))"

fun mutate_all :: "store \<Rightarrow> (addr \<times> mutation) list \<Rightarrow> fault + store" where
  "mutate_all st [] = Inr st"
| "mutate_all st ((p, m) # ms) =
     (case mutate st p m of Inl f \<Rightarrow> Inl f | Inr st' \<Rightarrow> mutate_all st' ms)"

text \<open>\<open>Duration d(t, showMicros)\<close> with \<open>t\<close> the object at \<open>p\<close> and \<open>d\<close> placed at \<open>q\<close>.\<close>

definition new_Duration :: "store \<Rightarrow> addr \<Rightarrow> bool \<Rightarrow> addr \<Rightarrow> fault + store" where
  "new_Duration st p showMicros q =
     (case time_at st p of
        Inl f \<Rightarrow> Inl f
      | Inr t \<Rightarrow> Inr (st(q \<mapsto> DurationObj (Duration_of t showMicros))))"

definition duration_at :: "store \<Rightarrow> addr \<Rightarrow> Duration option" where
  "duration_at st q = (case st q of Some (DurationObj d) \<Rightarrow> Some d | _ \<Rightarrow> None)"

definition render_at :: "store \<Rightarrow> addr \<Rightarrow> string option" where
  "render_at st q = map_option render (duration_at st q)"

section \<open>The quantities of the specification\<close>

text \<open>
  The scalar of the spec, seconds times one million plus microseconds, over the
  integers, with both fields read as the signed values they are.
\<close>

definition total_micros :: "Time \<Rightarrow> int" where
  "total_micros t = sint (seconds t) * 1000000 + sint (micros t)"

text \<open>
  The raw-microsecond constructor as the spec words it: the seconds are the count
  divided by one million, the microseconds the remainder, over the naturals.
\<close>

definition spec_Time_of_micros :: "ulong \<Rightarrow> Time" where
  "spec_Time_of_micros m =
     Time_of (word_of_nat (unat m div 1000000)) (word_of_nat (unat m mod 1000000))"

definition spec_add_offset :: "Time \<Rightarrow> ulong \<Rightarrow> Time" where
  "spec_add_offset t m = op_add t (spec_Time_of_micros m)"

definition spec_sub_offset :: "Time \<Rightarrow> ulong \<Rightarrow> Time" where
  "spec_sub_offset t m = op_sub t (spec_Time_of_micros m)"

text \<open>
  The rendering of a duration as the spec words it, over the naturals: the days, when
  there are any, followed by \<open>d\<close> and a space; the hours in as many digits as they
  have; the minutes and the seconds in two digits; after a dot, when asked for, the
  microseconds in six digits.
\<close>

definition zero_pad :: "nat \<Rightarrow> string \<Rightarrow> string" where
  "zero_pad w s = replicate (w - length s) CHR ''0'' @ s"

definition spec_render :: "nat \<Rightarrow> nat \<Rightarrow> bool \<Rightarrow> string" where
  "spec_render s us su =
     (let days = (if 0 < s div 86400 then decimal (s div 86400) @ ''d '' else []);
          s = (if 0 < s div 86400 then s mod 86400 else s);
          hours = decimal (s div 3600) @ '':'';
          s = s mod 3600;
          minutes = zero_pad 2 (decimal (s div 60)) @ '':'';
          s = s mod 60;
          secs = zero_pad 2 (decimal s);
          frac = (if su then ''.'' @ zero_pad 6 (decimal us) else [])
      in days @ hours @ minutes @ secs @ frac)"

text \<open>
  The two branches of the division as the spec words them, over the integers: seconds
  and microseconds of the quotient of \<open>(s, us)\<close> by \<open>d\<close>.
\<close>

definition spec_div :: "int \<Rightarrow> int \<Rightarrow> int \<Rightarrow> int \<times> int" where
  "spec_div s us d =
     (if d \<le> s then (s div d, ((s mod d) * 1000000 + us) div d)
      else (0, (s * 1000000 + us) div d))"

text \<open>
  The combined microsecond count of a \<open>Time\<close> reduced modulo \<open>2 ^ 64\<close> and divided by
  a denominator, over the integers.
\<close>

definition wrapped_quotient :: "Time \<Rightarrow> int \<Rightarrow> int" where
  "wrapped_quotient t d = (total_micros t mod 2 ^ 64) div d"

section \<open>Facts about 64-bit words\<close>

lemma sint_scast_int_long: "sint (scast (m :: cint) :: long) = sint m"
  by (simp add: sint_up_scast is_up)

lemma sint_long_of_int:
  "- (2 ^ 63) \<le> k \<Longrightarrow> k < 2 ^ 63 \<Longrightarrow> sint (word_of_int k :: long) = k"
  by (simp add: sint_sbintrunc' signed_take_bit_int_eq_self)

lemma sint_long_add:
  "- (2 ^ 63) \<le> sint a + sint b \<Longrightarrow> sint a + sint b < 2 ^ 63 \<Longrightarrow>
   sint (a + b :: long) = sint a + sint b"
  by (simp add: sint_word_ariths signed_take_bit_int_eq_self)

lemma sint_long_sub:
  "- (2 ^ 63) \<le> sint a - sint b \<Longrightarrow> sint a - sint b < 2 ^ 63 \<Longrightarrow>
   sint (a - b :: long) = sint a - sint b"
  by (simp add: sint_word_ariths signed_take_bit_int_eq_self)

lemma uint_small_sint:
  "uint (w :: long) < 2 ^ 63 \<Longrightarrow> sint w = uint w"
proof -
  assume "uint w < 2 ^ 63"
  moreover have "- (2 ^ 63) \<le> uint w"
    by (rule order_trans [of _ 0]) simp_all
  ultimately show ?thesis
    by (simp add: sint_uint signed_take_bit_int_eq_self)
qed

lemma sint_nonneg_uint:
  assumes "0 \<le> sint (w :: long)"
  shows "uint w = sint w"
proof -
  have "sint w < 2 ^ 64"
    using sint_lt [of w] by simp
  with assms show ?thesis
    by (simp add: uint_sint take_bit_int_eq_self)
qed

lemma unat_small_sint:
  assumes "unat (w :: long) < 2 ^ 63"
  shows "sint w = int (unat w)"
proof -
  have "nat (uint w) < 2 ^ 63"
    using assms by simp
  then have "uint w < 2 ^ 63"
    by (simp only: nat_less_numeral_power_cancel_iff)
  then have "sint w = uint w"
    by (rule uint_small_sint)
  then show ?thesis
    by (simp only: uint_nat)
qed

lemma div_million: "word_of_nat (unat m div 1000000) = (m :: ulong) div 1000000"
  by (simp add: word_arith_nat_div)

lemma mod_million: "word_of_nat (unat m mod 1000000) = (m :: ulong) mod 1000000"
  by (simp add: word_arith_nat_mod)

section \<open>Addition and subtraction\<close>

text \<open>The sum of two microsecond fields in range, and the carry.\<close>

lemma usec_sum:
  assumes "0 \<le> sint (x :: long)" "sint x < 1000000" "0 \<le> sint (y :: long)" "sint y < 1000000"
  shows "sint (x + y) = sint x + sint y"
    and "1000000 \<le> sint x + sint y \<Longrightarrow> sint (x + y - 1000000) = sint x + sint y - 1000000"
proof -
  show s: "sint (x + y) = sint x + sint y"
    using assms by (intro sint_long_add) simp_all
  have "sint (x + y - 1000000) = sint (x + y) - sint (1000000 :: long)"
    using assms s by (intro sint_long_sub) simp_all
  then show "sint (x + y - 1000000) = sint x + sint y - 1000000"
    using s by simp
qed

lemma usec_diff:
  assumes "0 \<le> sint (x :: long)" "sint x < 1000000" "0 \<le> sint (y :: long)" "sint y < 1000000"
  shows "sint (x - y) = sint x - sint y"
    and "sint (x - y + 1000000) = sint x - sint y + 1000000"
proof -
  show s: "sint (x - y) = sint x - sint y"
    using assms by (intro sint_long_sub) simp_all
  have "sint (x - y + 1000000) = sint (x - y) + sint (1000000 :: long)"
    using assms s by (intro sint_long_add) simp_all
  then show "sint (x - y + 1000000) = sint x - sint y + 1000000"
    using s by simp
qed

lemma timeradd_fields:
  assumes "0 \<le> sint (tv_usec a)" "sint (tv_usec a) < 1000000"
          "0 \<le> sint (tv_usec b)" "sint (tv_usec b) < 1000000"
  shows "timeradd a b =
         (if 1000000 \<le> sint (tv_usec a) + sint (tv_usec b)
          then \<lparr>tv_sec = tv_sec a + tv_sec b + 1, tv_usec = tv_usec a + tv_usec b - 1000000\<rparr>
          else \<lparr>tv_sec = tv_sec a + tv_sec b, tv_usec = tv_usec a + tv_usec b\<rparr>)"
  using usec_sum(1) [OF assms] by (simp add: timeradd_def Let_def)

lemma timersub_fields:
  assumes "0 \<le> sint (tv_usec a)" "sint (tv_usec a) < 1000000"
          "0 \<le> sint (tv_usec b)" "sint (tv_usec b) < 1000000"
  shows "timersub a b =
         (if sint (tv_usec a) < sint (tv_usec b)
          then \<lparr>tv_sec = tv_sec a - tv_sec b - 1, tv_usec = tv_usec a - tv_usec b + 1000000\<rparr>
          else \<lparr>tv_sec = tv_sec a - tv_sec b, tv_usec = tv_usec a - tv_usec b\<rparr>)"
  using usec_diff(1) [OF assms] by (simp add: timersub_def Let_def)

lemma timeradd_usec_range:
  assumes "0 \<le> sint (tv_usec a)" "sint (tv_usec a) < 1000000"
          "0 \<le> sint (tv_usec b)" "sint (tv_usec b) < 1000000"
  shows "0 \<le> sint (tv_usec (timeradd a b)) \<and> sint (tv_usec (timeradd a b)) < 1000000"
  using usec_sum [OF assms] assms by (simp add: timeradd_fields [OF assms])

lemma timersub_usec_range:
  assumes "0 \<le> sint (tv_usec a)" "sint (tv_usec a) < 1000000"
          "0 \<le> sint (tv_usec b)" "sint (tv_usec b) < 1000000"
  shows "0 \<le> sint (tv_usec (timersub a b)) \<and> sint (tv_usec (timersub a b)) < 1000000"
  using usec_diff [OF assms] assms by (simp add: timersub_fields [OF assms])

lemma Time_copy_id: "Time_copy t = t"
  by (simp add: Time_copy_def)

lemma op_add_assign_t: "Time_t (op_add_assign a b) = timeradd (Time_t a) (Time_t b)"
  by (simp add: op_add_assign_def Let_def)

lemma op_sub_assign_t: "Time_t (op_sub_assign a b) = timersub (Time_t a) (Time_t b)"
  by (simp add: op_sub_assign_def Let_def)

lemma op_add_eq: "op_add a b = op_add_assign a b"
  by (simp add: op_add_def Time_copy_id)

lemma op_sub_eq: "op_sub a b = op_sub_assign a b"
  by (simp add: op_sub_def Time_copy_id)

text \<open>
  Claim C5. When the microsecond fields of \<open>a\<close> and \<open>b\<close> both lie in \<open>[0, 1000000)\<close>,
  so does the microsecond field of \<open>a + b\<close>, \<open>a - b\<close>, \<open>a += b\<close> and \<open>a -= b\<close>; the
  seconds are the sum (difference) of the seconds plus the carry (minus the borrow),
  and the compound forms give the same value as the binary ones.
\<close>

theorem add_sub_normalized:
  assumes "normalized a" "normalized b"
  shows "normalized (op_add a b) \<and> normalized (op_sub a b)
       \<and> normalized (op_add_assign a b) \<and> normalized (op_sub_assign a b)
       \<and> seconds (op_add a b) =
           seconds a + seconds b + (if 1000000 \<le> sint (micros a) + sint (micros b) then 1 else 0)
       \<and> seconds (op_sub a b) =
           seconds a - seconds b - (if sint (micros a) < sint (micros b) then 1 else 0)
       \<and> op_add_assign a b = op_add a b \<and> op_sub_assign a b = op_sub a b"
proof -
  have r: "0 \<le> sint (tv_usec (Time_t a))" "sint (tv_usec (Time_t a)) < 1000000"
          "0 \<le> sint (tv_usec (Time_t b))" "sint (tv_usec (Time_t b)) < 1000000"
    using assms by (simp_all add: normalized_def micros_def)
  have "normalized (op_add_assign a b)"
    using timeradd_usec_range [OF r] by (simp add: normalized_def micros_def op_add_assign_t)
  moreover have "normalized (op_sub_assign a b)"
    using timersub_usec_range [OF r] by (simp add: normalized_def micros_def op_sub_assign_t)
  moreover have "seconds (op_add_assign a b) =
      seconds a + seconds b + (if 1000000 \<le> sint (micros a) + sint (micros b) then 1 else 0)"
    by (simp add: seconds_def micros_def op_add_assign_t timeradd_fields [OF r])
  moreover have "seconds (op_sub_assign a b) =
      seconds a - seconds b - (if sint (micros a) < sint (micros b) then 1 else 0)"
    by (simp add: seconds_def micros_def op_sub_assign_t timersub_fields [OF r])
  ultimately show ?thesis
    by (simp add: op_add_eq op_sub_eq)
qed


theorem add_sub_normalized_witness:
  "normalized (Time_of 1 999999) \<and> normalized (Time_of 2 1)
 \<and> normalized (op_add (Time_of 1 999999) (Time_of 2 1))
 \<and> normalized (op_sub (Time_of 2 1) (Time_of 1 999999))
 \<and> op_add (Time_of 1 999999) (Time_of 2 1) = Time_of 4 0
 \<and> op_sub (Time_of 2 1) (Time_of 1 999999) = Time_of 0 2"
  using add_sub_normalized [of "Time_of 1 999999" "Time_of 2 1"]
        add_sub_normalized [of "Time_of 2 1" "Time_of 1 999999"]
  by (simp add: normalized_def micros_def Time_of_def op_add_def op_sub_def Time_copy_def
      op_add_assign_def op_sub_assign_def timeradd_def timersub_def)

lemma timersub_timeradd:
  assumes "0 \<le> sint (tv_usec a)" "sint (tv_usec a) < 1000000"
          "0 \<le> sint (tv_usec b)" "sint (tv_usec b) < 1000000"
  shows "timersub (timeradd a b) b = a"
proof -
  have rng: "0 \<le> sint (tv_usec (timeradd a b))" "sint (tv_usec (timeradd a b)) < 1000000"
    using timeradd_usec_range [OF assms] by simp_all
  show ?thesis
  proof (cases "1000000 \<le> sint (tv_usec a) + sint (tv_usec b)")
    case True
    then have ab: "timeradd a b =
        \<lparr>tv_sec = tv_sec a + tv_sec b + 1, tv_usec = tv_usec a + tv_usec b - 1000000\<rparr>"
      by (simp add: timeradd_fields [OF assms])
    have "sint (tv_usec (timeradd a b)) < sint (tv_usec b)"
      using usec_sum(2) [OF assms True] assms by (simp add: ab)
    then show ?thesis
      by (simp add: timersub_fields [OF rng assms(3,4)]) (simp add: ab)
  next
    case False
    then have ab: "timeradd a b = \<lparr>tv_sec = tv_sec a + tv_sec b, tv_usec = tv_usec a + tv_usec b\<rparr>"
      by (simp add: timeradd_fields [OF assms])
    have "\<not> sint (tv_usec (timeradd a b)) < sint (tv_usec b)"
      using usec_sum(1) [OF assms] assms by (simp add: ab)
    then show ?thesis
      by (simp add: timersub_fields [OF rng assms(3,4)]) (simp add: ab)
  qed
qed

text \<open>
  Claim C6. For \<open>a\<close> and \<open>b\<close> with microsecond fields in \<open>[0, 1000000)\<close>,
  \<open>(a + b) - b == a\<close>: the two values are equal field by field and \<open>operator ==\<close>
  says so, whatever the seconds are.
\<close>

theorem add_then_sub:
  assumes "normalized a" "normalized b"
  shows "op_eq (op_sub (op_add a b) b) a \<and> op_sub (op_add a b) b = a
       \<and> op_eq (op_sub_assign (op_add_assign a b) b) a"
proof -
  have r: "0 \<le> sint (tv_usec (Time_t a))" "sint (tv_usec (Time_t a)) < 1000000"
          "0 \<le> sint (tv_usec (Time_t b))" "sint (tv_usec (Time_t b)) < 1000000"
    using assms by (simp_all add: normalized_def micros_def)
  have "Time_t (op_sub_assign (op_add_assign a b) b) = Time_t a"
    by (simp add: op_sub_assign_t op_add_assign_t timersub_timeradd [OF r])
  then have "op_sub_assign (op_add_assign a b) b = a"
    by simp
  then show ?thesis
    by (simp add: op_add_eq op_sub_eq op_eq_def)
qed

theorem add_then_sub_witness:
  "normalized (Time_of 5 999999) \<and> normalized (Time_of 7 999999)
 \<and> op_add (Time_of 5 999999) (Time_of 7 999999) = Time_of 13 999998
 \<and> op_sub (Time_of 13 999998) (Time_of 7 999999) = Time_of 5 999999
 \<and> op_eq (op_sub (op_add (Time_of 5 999999) (Time_of 7 999999)) (Time_of 7 999999))
      (Time_of 5 999999)"
  using add_then_sub [of "Time_of 5 999999" "Time_of 7 999999"]
  by (simp add: normalized_def micros_def Time_of_def op_add_def op_sub_def Time_copy_def
      op_add_assign_def op_sub_assign_def timeradd_def timersub_def)

section \<open>Comparison\<close>

lemma in_micros_of_int: "in_micros t = word_of_int (total_micros t)"
  by (simp add: in_micros_def total_micros_def seconds_def micros_def MAX_USECS_def)

text \<open>
  Claim C7. Each of the six relational operators compares the scalar \<open>in_micros\<close> of
  its operands and nothing else: \<open><\<close>, \<open>>\<close>, \<open><=\<close>, \<open>>=\<close> as the order of the signed
  values, \<open>==\<close> and \<open>!=\<close> as their equality, without tolerance. \<open><=\<close> is total and
  transitive, two values that are \<open><=\<close> each other are \<open>==\<close>, and \<open><\<close> is \<open><=\<close> without
  \<open>==\<close>. The scalar is seconds times one million plus microseconds whenever that
  number fits the 64-bit result type, and then \<open><\<close> and \<open>==\<close> are the order and the
  equality of these numbers.
\<close>

theorem relational_total_order:
  "(op_lt a b \<longleftrightarrow> sint (in_micros a) < sint (in_micros b))
 \<and> (op_gt a b \<longleftrightarrow> sint (in_micros a) > sint (in_micros b))
 \<and> (op_le a b \<longleftrightarrow> sint (in_micros a) \<le> sint (in_micros b))
 \<and> (op_ge a b \<longleftrightarrow> sint (in_micros a) \<ge> sint (in_micros b))
 \<and> (op_eq a b \<longleftrightarrow> sint (in_micros a) = sint (in_micros b))
 \<and> (op_ne a b \<longleftrightarrow> sint (in_micros a) \<noteq> sint (in_micros b))
 \<and> (op_le a b \<or> op_le b a)
 \<and> (op_le a b \<and> op_le b c \<longrightarrow> op_le a c)
 \<and> (op_le a b \<and> op_le b a \<longrightarrow> op_eq a b)
 \<and> (op_lt a b \<longleftrightarrow> op_le a b \<and> \<not> op_eq a b)
 \<and> (- (2 ^ 63) \<le> total_micros a \<and> total_micros a < 2 ^ 63
      \<longrightarrow> sint (in_micros a) = total_micros a)
 \<and> (- (2 ^ 63) \<le> total_micros a \<and> total_micros a < 2 ^ 63
    \<and> - (2 ^ 63) \<le> total_micros b \<and> total_micros b < 2 ^ 63
      \<longrightarrow> (op_lt a b \<longleftrightarrow> total_micros a < total_micros b)
        \<and> (op_eq a b \<longleftrightarrow> total_micros a = total_micros b))"
proof -
  have eq: "op_eq a b \<longleftrightarrow> sint (in_micros a) = sint (in_micros b)"
    by (auto simp add: op_eq_def intro: signed_word_eqI)
  have tot: "sint (in_micros x) = total_micros x"
    if "- (2 ^ 63) \<le> total_micros x \<and> total_micros x < 2 ^ 63" for x
    using that by (simp add: in_micros_of_int sint_long_of_int)
  show ?thesis
    unfolding eq op_ne_def op_lt_def op_gt_def op_le_def op_ge_def
    using tot [of a] tot [of b] by auto
qed

theorem relational_total_order_witness:
  "op_le (Time_of 1 500000) (Time_of 2 0) \<and> op_le (Time_of 2 0) (Time_of 2 1)
 \<and> op_le (Time_of 1 500000) (Time_of 2 1)
 \<and> - (2 ^ 63) \<le> total_micros (Time_of 1 500000) \<and> total_micros (Time_of 1 500000) < 2 ^ 63
 \<and> - (2 ^ 63) \<le> total_micros (Time_of 2 0) \<and> total_micros (Time_of 2 0) < 2 ^ 63
 \<and> sint (in_micros (Time_of 1 500000)) = 1500000
 \<and> total_micros (Time_of 1 500000) < total_micros (Time_of 2 0)
 \<and> op_lt (Time_of 1 500000) (Time_of 2 0)
 \<and> op_le (Time_of 1 0) (Time_of 0 1000000) \<and> op_le (Time_of 0 1000000) (Time_of 1 0)
 \<and> op_eq (Time_of 1 0) (Time_of 0 1000000)"
  using relational_total_order [of "Time_of 1 500000" "Time_of 2 0" "Time_of 2 1"]
        relational_total_order [of "Time_of 1 0" "Time_of 0 1000000" "Time_of 1 0"]
  by (simp add: total_micros_def Time_of_def seconds_def micros_def in_micros_def MAX_USECS_def
      op_le_def op_lt_def op_eq_def)


section \<open>Offsets in microseconds\<close>

text \<open>
  Claim C8. \<open>t + m\<close> and \<open>t - m\<close> with an unsigned microsecond count \<open>m\<close> are
  \<open>t + Time(m)\<close> and \<open>t - Time(m)\<close>, where \<open>Time(m)\<close> has the seconds \<open>m / 1000000\<close> and
  the microseconds \<open>m % 1000000\<close>, and the combination is the addition and subtraction
  of two \<open>Time\<close> values.
\<close>

theorem offset_operands:
  "op_add_offset t m = spec_add_offset t m \<and> op_sub_offset t m = spec_sub_offset t m
 \<and> Time_of_micros m = spec_Time_of_micros m
 \<and> sint (seconds (Time_of_micros m)) = int (unat m div 1000000)
 \<and> sint (micros (Time_of_micros m)) = int (unat m mod 1000000)"
proof -
  have c: "Time_of_micros m = spec_Time_of_micros m"
    by (simp add: Time_of_micros_def spec_Time_of_micros_def Time_of_def MAX_USECS_def
        div_million mod_million)
  have "unat m < 2 ^ 64"
    using unsigned_less [of m, where ?'a = nat] by simp
  then have "unat m div 1000000 < 2 ^ 63"
    by simp
  then have s: "sint (m div 1000000) = int (unat m div 1000000)"
    by (simp add: unat_small_sint unat_div)
  have "unat m mod 1000000 < 2 ^ 63"
    by (rule less_trans [of _ 1000000]) simp_all
  then have u: "sint (m mod 1000000) = int (unat m mod 1000000)"
    by (simp add: unat_small_sint unat_mod)
  show ?thesis
    using s u
    by (simp add: op_add_offset_def op_sub_offset_def spec_add_offset_def spec_sub_offset_def
        c [symmetric] Let_def)
       (simp add: Time_of_micros_def seconds_def micros_def MAX_USECS_def)
qed

section \<open>Multiplication\<close>

lemma long_mult_of_int: "(a :: long) * b = word_of_int (sint a * sint b)"
  by simp

lemma op_mul_eq: "op_mul t m = op_mul_assign t m"
  by (simp add: op_mul_def Time_copy_id)

text \<open>
  Claim C1, evaluated. The claim gives \<open>t * m\<close> the original seconds times \<open>m\<close> plus the
  carry. \<open>operator *=\<close> multiplies the seconds of its fresh local instead, which are
  zero: \<open>Time(2, 0) * 3\<close> is \<open>(0, 0)\<close> and not \<open>(6, 0)\<close>, and \<open>Time(3, 700000) * 3\<close> is
  \<open>(2, 100000)\<close>, the carry alone, and not \<open>(11, 100000)\<close>.
\<close>

theorem mul_drops_seconds:
  "op_mul (Time_of 2 0) 3 = Time_of 0 0 \<and> op_mul_assign (Time_of 2 0) 3 = Time_of 0 0
 \<and> op_mul (Time_of 3 700000) 3 = Time_of 2 100000
 \<and> seconds (op_mul (Time_of 2 0) 3) \<noteq> seconds (Time_of 2 0) * 3"
  by (simp add: Time_of_def seconds_def op_mul_def op_mul_assign_def Time_copy_def
      Time_default_def MAX_USECS_def)

text \<open>
  Claim C3. When the microseconds of \<open>t\<close> times a positive multiplier \<open>m\<close> are exactly
  one million, the test \<open>micros > MAX_USECS\<close> fails: nothing is carried, the seconds of
  the result are zero and its microsecond field is one million, outside
  \<open>[0, 1000000)\<close>; \<open>Time(0, 500000) * 2\<close> is \<open>(0, 1000000)\<close>.
\<close>

theorem mul_exact_million:
  assumes "0 < sint m" and "sint (micros t) * sint m = 1000000"
  shows "micros (op_mul t m) = 1000000 \<and> seconds (op_mul t m) = 0
       \<and> \<not> normalized (op_mul t m) \<and> op_mul_assign t m = op_mul t m"
proof -
  have "tv_usec (Time_t t) * scast m = word_of_int (sint (tv_usec (Time_t t)) * sint m)"
    by (simp only: long_mult_of_int [of "tv_usec (Time_t t)" "scast m"] sint_scast_int_long)
  also have "sint (tv_usec (Time_t t)) * sint m = 1000000"
    using assms(2) by (simp only: micros_def)
  finally have p: "tv_usec (Time_t t) * scast m = (1000000 :: long)"
    by simp
  have "op_mul_assign t m = Time_of 0 1000000"
    by (simp add: op_mul_assign_def Let_def p MAX_USECS_def Time_default_def Time_of_def)
  then show ?thesis
    by (simp add: op_mul_eq Time_of_def micros_def seconds_def normalized_def)
qed

theorem mul_exact_million_witness:
  "0 < sint (2 :: cint) \<and> sint (micros (Time_of 0 500000)) * sint (2 :: cint) = 1000000
 \<and> op_mul (Time_of 0 500000) 2 = Time_of 0 1000000
 \<and> \<not> normalized (op_mul (Time_of 0 500000) 2)"
  using mul_exact_million [of 2 "Time_of 0 500000"]
  by (simp add: Time_of_def micros_def op_mul_def op_mul_assign_def Time_copy_def
      Time_default_def MAX_USECS_def)

section \<open>Division\<close>

lemma sdiv_nonneg: "0 \<le> a \<Longrightarrow> 0 < b \<Longrightarrow> a sdiv b = a div (b :: int)"
  by (cases "a = 0") (simp_all add: signed_divide_int_def sgn_if)

lemma smod_nonneg: "0 \<le> a \<Longrightarrow> 0 < b \<Longrightarrow> a smod b = a mod (b :: int)"
  by (cases "a = 0") (simp_all add: signed_modulo_int_def sgn_if)

text \<open>A positive \<open>int\<close> denominator, converted to \<open>long\<close> and to \<open>unsigned long\<close>.\<close>

lemma denominator_long:
  assumes "0 < sint (d :: cint)"
  shows "sint (scast d :: long) = sint d" and "uint (scast d :: long) = sint d"
    and "(scast d :: long) \<noteq> 0" and "sint d < 2 ^ 31"
proof -
  show 1: "sint (scast d :: long) = sint d"
    by (rule sint_scast_int_long)
  show "uint (scast d :: long) = sint d"
    using assms sint_nonneg_uint [of "scast d :: long"] by (simp add: 1)
  show "(scast d :: long) \<noteq> 0"
    using assms 1 by auto
  show "sint d < 2 ^ 31"
    using sint_lt [of d] by simp
qed

text \<open>The unsigned quotient of a combined microsecond count by the denominator.\<close>

lemma micros_div:
  assumes "0 < sint (d :: cint)"
  shows "uint ((word_of_int k :: long) div scast d) = (k mod 2 ^ 64) div sint d"
  by (simp add: uint_div_distrib denominator_long(2) [OF assms] uint_word_of_int take_bit_eq_mod)

lemma combined_of_int:
  "(a :: long) * MAX_USECS + b = word_of_int (sint a * 1000000 + sint b)"
  by (simp add: MAX_USECS_def)

lemma word_of_int_combined:
  "(word_of_int r :: long) * MAX_USECS + b = word_of_int (r * 1000000 + sint b)"
  by (simp add: MAX_USECS_def)


lemma int_div_le_self: "0 \<le> (k :: int) \<Longrightarrow> 0 < n \<Longrightarrow> k div n \<le> k"
  using zdiv_mono2 [of k 1 n] by simp

lemma quotient_field:
  assumes "0 < sint (d :: cint)" and "0 \<le> k" and "k < 2 ^ 63"
  shows "sint ((word_of_int k :: long) div scast d) = k div sint d"
proof -
  have "k < 2 ^ 64"
    using assms(3) by simp
  then have "k mod 2 ^ 64 = k"
    using assms(2) by simp
  then have u: "uint ((word_of_int k :: long) div scast d) = k div sint d"
    by (simp add: micros_div [OF assms(1)])
  have "k div sint d \<le> k"
    using assms(1,2) by (rule int_div_le_self [rotated])
  then have "uint ((word_of_int k :: long) div scast d) < 2 ^ 63"
    using assms(3) by (simp only: u)
  then show ?thesis
    using u by (simp only: uint_small_sint)
qed

lemma op_div_eq: "op_div t d = op_div_assign t d"
  by (simp add: op_div_def Time_copy_id)

lemma div_nonneg_seconds:
  assumes "0 \<le> sint (seconds t)" and "normalized t" and "0 < sint d"
  shows "\<exists>r. op_div_assign t d = Inr r
           \<and> (sint (seconds r), sint (micros r))
               = spec_div (sint (seconds t)) (sint (micros t)) (sint d)"
proof -
  let ?s = "tv_sec (Time_t t)" and ?u = "tv_usec (Time_t t)"
  let ?S = "sint ?s" and ?U = "sint ?u" and ?n = "sint d"
  note dl = denominator_long [OF assms(3)]
  have S: "0 \<le> ?S" and U: "0 \<le> ?U" "?U < 1000000"
    using assms(1,2) by (simp_all add: seconds_def normalized_def micros_def)
  have S63: "?S < 2 ^ 63"
    using sint_lt [of ?s] by simp
  show ?thesis
  proof (cases "?n \<le> ?S")
    case True
    have q: "long_div ?s (scast d) = word_of_int (?S div ?n)"
      using S assms(3) by (simp add: long_div_def dl(1) sdiv_nonneg)
    have "0 \<le> ?S div ?n" "?S div ?n \<le> ?S"
      using S assms(3) by (simp_all add: pos_imp_zdiv_nonneg_iff int_div_le_self)
    then have sq: "sint (long_div ?s (scast d)) = ?S div ?n"
      using S63 by (simp add: q sint_long_of_int)
    have r: "long_mod ?s (scast d) = word_of_int (?S mod ?n)"
      using S assms(3) by (simp add: long_mod_def dl(1) smod_nonneg)
    have "?S mod ?n < ?n"
      using assms(3) by (rule pos_mod_bound)
    then have "?S mod ?n < 2 ^ 31"
      using dl(4) by (rule less_trans)
    moreover have "0 \<le> ?S mod ?n"
      using assms(3) by simp
    ultimately have k: "0 \<le> ?S mod ?n * 1000000 + ?U" "?S mod ?n * 1000000 + ?U < 2 ^ 63"
      using U by simp_all
    have su: "sint ((long_mod ?s (scast d) * MAX_USECS + ?u) div scast d)
        = (?S mod ?n * 1000000 + ?U) div ?n"
      by (simp only: r word_of_int_combined quotient_field [OF assms(3) k])
    show ?thesis
      using True dl(1,3) sq su
      by (simp add: op_div_assign_def Let_def spec_div_def seconds_def micros_def)
  next
    case False
    then have "?S < 2 ^ 31"
      using dl(4) by simp
    then have k: "0 \<le> ?S * 1000000 + ?U" "?S * 1000000 + ?U < 2 ^ 63"
      using S U by simp_all
    have su: "sint ((?s * MAX_USECS + ?u) div scast d) = (?S * 1000000 + ?U) div ?n"
      by (simp only: combined_of_int quotient_field [OF assms(3) k])
    show ?thesis
      using False dl(1,3) su
      by (simp add: op_div_assign_def Let_def spec_div_def seconds_def micros_def)
  qed
qed

lemmas div_eval = op_div_def op_div_assign_def Time_copy_def Time_of_def MAX_USECS_def
  long_div_def long_mod_def signed_divide_int_def signed_modulo_int_def Let_def

text \<open>
  An \<open>unsigned int\<close> that is positive and at most \<open>INT_MAX\<close> is the same positive
  number when it is read as an \<open>int\<close>.
\<close>

lemma uint_in_int_range:
  assumes "0 < uint (d :: cuint)" and "uint d < 2 ^ 31"
  shows "sint d = uint d" and "0 < sint d"
proof -
  have "- (2 ^ 31) \<le> uint d"
    by (rule order_trans [of _ 0]) simp_all
  then show 1: "sint d = uint d"
    using assms(2) by (simp add: sint_uint signed_take_bit_int_eq_self)
  show "0 < sint d"
    using assms(1) by (simp only: 1)
qed

text \<open>
  Claim C4, as stated, fails for \<open>operator /\<close>, whose denominator is an
  \<open>unsigned int\<close>: a denominator above \<open>INT_MAX\<close> reaches \<open>operator /=\<close> as a negative
  \<open>int\<close>. \<open>Time(10, 500000) / 4294967295u\<close> divides by \<open>-1\<close> in the first branch and is
  \<open>(-10, 0)\<close>, where the two branches of the claim give \<open>(0, 0)\<close>.
\<close>

theorem div_unsigned_counterexample:
  "0 \<le> sint (seconds (Time_of 10 500000)) \<and> normalized (Time_of 10 500000)
 \<and> 0 < uint (4294967295 :: cuint)
 \<and> op_div (Time_of 10 500000) 4294967295 = Inr (Time_of (- 10) 0)
 \<and> spec_div 10 500000 (uint (4294967295 :: cuint)) = (0, 0)
 \<and> (sint (seconds (Time_of (- 10) 0)), sint (micros (Time_of (- 10) 0)))
      \<noteq> spec_div (sint (seconds (Time_of 10 500000))) (sint (micros (Time_of 10 500000)))
          (uint (4294967295 :: cuint))"
  by (simp add: div_eval spec_div_def seconds_def micros_def normalized_def)

text \<open>
  Claim C4, amended. For a \<open>Time\<close> with non-negative seconds and microseconds in
  \<open>[0, 1000000)\<close> and a positive denominator \<open>d\<close> that an \<open>int\<close> can hold, that is
  every positive argument of \<open>operator /=\<close> and every argument of \<open>operator /\<close> from
  \<open>1\<close> to \<open>INT_MAX\<close>, \<open>t /= d\<close> and \<open>t / d\<close> return the value of the two branches:
  seconds \<open>s div d\<close> and microseconds \<open>((s mod d) * 1000000 + us) div d\<close> when
  \<open>s >= d\<close>, seconds \<open>0\<close> and microseconds \<open>(s * 1000000 + us) div d\<close> otherwise.
  \<open>Time(10,0) / 4\<close> is \<open>(2, 500000)\<close> and \<open>Time(0,100) / 1000\<close> is \<open>(0, 0)\<close>.
\<close>

theorem div_two_branches:
  "(0 \<le> sint (seconds t) \<and> normalized t \<and> 0 < sint d \<longrightarrow>
      (\<exists>r. op_div_assign t d = Inr r
         \<and> (sint (seconds r), sint (micros r))
             = spec_div (sint (seconds t)) (sint (micros t)) (sint d)))
 \<and> (0 \<le> sint (seconds t) \<and> normalized t \<and> 0 < uint d \<and> uint d < 2 ^ 31 \<longrightarrow>
      (\<exists>r. op_div t d = Inr r \<and> op_div_assign t d = Inr r
         \<and> (sint (seconds r), sint (micros r))
             = spec_div (sint (seconds t)) (sint (micros t)) (uint d)))
 \<and> op_div (Time_of 10 0) 4 = Inr (Time_of 2 500000)
 \<and> op_div (Time_of 0 100) 1000 = Inr (Time_of 0 0)"
proof -
  have 1: "op_div (Time_of 10 0) 4 = Inr (Time_of 2 500000)"
    by (simp add: div_eval)
  have 2: "op_div (Time_of 0 100) 1000 = Inr (Time_of 0 0)"
    by (simp add: div_eval)
  have 3: "\<exists>r. op_div t d = Inr r \<and> op_div_assign t d = Inr r
         \<and> (sint (seconds r), sint (micros r))
             = spec_div (sint (seconds t)) (sint (micros t)) (uint d)"
    if "0 \<le> sint (seconds t)" "normalized t" "0 < uint d" "uint d < 2 ^ 31"
    using div_nonneg_seconds [OF that(1,2) uint_in_int_range(2) [OF that(3,4)]]
    by (simp only: op_div_eq uint_in_int_range(1) [OF that(3,4)]) simp
  show ?thesis
    using 1 2 3 div_nonneg_seconds [of t d] by blast
qed

theorem div_two_branches_witness:
  "0 \<le> sint (seconds (Time_of 10 0)) \<and> normalized (Time_of 10 0)
 \<and> 0 < sint (4 :: cint) \<and> 0 < uint (4 :: cuint) \<and> uint (4 :: cuint) < 2 ^ 31
 \<and> op_div_assign (Time_of 10 0) 4 = Inr (Time_of 2 500000)
 \<and> op_div (Time_of 10 0) 4 = Inr (Time_of 2 500000)
 \<and> spec_div 10 0 4 = (2, 500000)
 \<and> 0 \<le> sint (seconds (Time_of 3 250000)) \<and> normalized (Time_of 3 250000)
 \<and> 0 < sint (5 :: cint) \<and> 0 < uint (5 :: cuint) \<and> uint (5 :: cuint) < 2 ^ 31
 \<and> op_div (Time_of 3 250000) 5 = Inr (Time_of 0 650000)
 \<and> spec_div 3 250000 5 = (0, 650000)"
  using div_two_branches [of "Time_of 10 0" 4] div_two_branches [of "Time_of 3 250000" 5]
  by (simp add: div_eval spec_div_def seconds_def micros_def normalized_def)

lemma div_negative_seconds:
  assumes "sint (seconds t) < 0" and "0 < sint d"
  shows "\<exists>r. op_div_assign t d = Inr r \<and> seconds r = 0
           \<and> uint (micros r) = wrapped_quotient t (sint d)
           \<and> (2 \<le> sint d \<longrightarrow>
                sint (micros r) = wrapped_quotient t (sint d) \<and> 0 \<le> sint (micros r))"
proof -
  let ?q = "(tv_sec (Time_t t) * MAX_USECS + tv_usec (Time_t t)) div (scast d :: long)"
  note dl = denominator_long [OF assms(2)]
  have branch: "\<not> sint d \<le> sint (tv_sec (Time_t t))"
    using assms by (simp add: seconds_def)
  have r: "op_div_assign t d = Inr \<lparr>Time_t = \<lparr>tv_sec = 0, tv_usec = ?q\<rparr>\<rparr>"
    using branch dl(1,3) by (simp add: op_div_assign_def Let_def)
  have "tv_sec (Time_t t) * MAX_USECS + tv_usec (Time_t t) = word_of_int (total_micros t)"
    by (simp only: combined_of_int total_micros_def seconds_def micros_def)
  then have u: "uint ?q = wrapped_quotient t (sint d)"
    by (simp only: micros_div [OF assms(2)] wrapped_quotient_def)
  have s: "sint ?q = wrapped_quotient t (sint d)" if "2 \<le> sint d"
  proof -
    have "0 \<le> total_micros t mod 2 ^ 64"
      by simp
    then have "total_micros t mod 2 ^ 64 div sint d \<le> total_micros t mod 2 ^ 64 div 2"
      using that by (intro zdiv_mono2) simp_all
    moreover have "total_micros t mod 2 ^ 64 < 2 ^ 64"
      by simp
    then have "total_micros t mod 2 ^ 64 div 2 < 2 ^ 63"
      by simp
    ultimately have "wrapped_quotient t (sint d) < 2 ^ 63"
      by (simp only: wrapped_quotient_def)
    then have "uint ?q < 2 ^ 63"
      by (simp only: u)
    then show ?thesis
      using u by (simp only: uint_small_sint)
  qed
  have nn: "0 \<le> wrapped_quotient t (sint d)"
    using assms(2) by (simp add: wrapped_quotient_def pos_imp_zdiv_nonneg_iff)
  show ?thesis
    using r u s nn by (simp add: seconds_def micros_def)
qed

text \<open>
  Claim C10, as stated, fails in two places. For the denominator \<open>1\<close> the quotient of
  the wrapped count is the wrapped count itself, at least \<open>2 ^ 63\<close>, and the signed
  field that stores it reads as a negative number: \<open>Time(-1, 0) / 1\<close> has the
  microseconds \<open>-1000000\<close>, not \<open>2 ^ 64 - 1000000\<close>. And a denominator of \<open>operator /\<close>
  above \<open>INT_MAX\<close> reaches \<open>operator /=\<close> as a negative \<open>int\<close>, so that the test on the
  seconds can succeed: \<open>Time(-1, 0) / 4294967295u\<close> takes the first branch and is
  \<open>(1, 0)\<close>.
\<close>

theorem div_by_one_counterexample:
  "sint (seconds (Time_of (- 1) 0)) < 0 \<and> 0 < uint (1 :: cuint)
 \<and> op_div (Time_of (- 1) 0) 1 = Inr (Time_of 0 (- 1000000))
 \<and> sint (micros (Time_of 0 (- 1000000))) = - 1000000
 \<and> wrapped_quotient (Time_of (- 1) 0) (uint (1 :: cuint)) = 18446744073708551616
 \<and> sint (micros (Time_of 0 (- 1000000)))
      \<noteq> wrapped_quotient (Time_of (- 1) 0) (uint (1 :: cuint))
 \<and> 0 < uint (4294967295 :: cuint)
 \<and> op_div (Time_of (- 1) 0) 4294967295 = Inr (Time_of 1 0)
 \<and> seconds (Time_of 1 0) \<noteq> 0"
  by (simp add: div_eval wrapped_quotient_def total_micros_def seconds_def micros_def)

text \<open>
  Claim C10, amended. For a \<open>Time\<close> with negative seconds and a positive denominator
  \<open>d\<close> that an \<open>int\<close> can hold, that is every positive argument of \<open>operator /=\<close> and
  every argument of \<open>operator /\<close> from \<open>1\<close> to \<open>INT_MAX\<close>, division takes the else
  branch: the seconds of the result are \<open>0\<close> and its microsecond field holds, as a
  64-bit pattern, the combined count modulo \<open>2 ^ 64\<close> divided by \<open>d\<close>. For \<open>d >= 2\<close> the
  field, read as the signed number it is, equals that quotient and so is not
  negative; \<open>Time(-1, 0) / 2\<close> has the microseconds \<open>(2 ^ 64 - 1000000) / 2\<close>.
\<close>

theorem div_negative_wraps:
  "(sint (seconds t) < 0 \<and> 0 < sint d \<longrightarrow>
      (\<exists>r. op_div_assign t d = Inr r \<and> seconds r = 0
         \<and> uint (micros r) = wrapped_quotient t (sint d)
         \<and> (2 \<le> sint d \<longrightarrow>
              sint (micros r) = wrapped_quotient t (sint d) \<and> 0 \<le> sint (micros r))))
 \<and> (sint (seconds t) < 0 \<and> 0 < uint d \<and> uint d < 2 ^ 31 \<longrightarrow>
      (\<exists>r. op_div t d = Inr r \<and> op_div_assign t d = Inr r \<and> seconds r = 0
         \<and> uint (micros r) = wrapped_quotient t (uint d)
         \<and> (2 \<le> uint d \<longrightarrow>
              sint (micros r) = wrapped_quotient t (uint d) \<and> 0 \<le> sint (micros r))))
 \<and> op_div (Time_of (- 1) 0) 2 = Inr (Time_of 0 9223372036854275808)
 \<and> wrapped_quotient (Time_of (- 1) 0) 2 = (2 ^ 64 - 1000000) div 2"
proof -
  have 1: "op_div (Time_of (- 1) 0) 2 = Inr (Time_of 0 9223372036854275808)"
    by (simp add: div_eval)
  have 2: "wrapped_quotient (Time_of (- 1) 0) 2 = (2 ^ 64 - 1000000) div 2"
    by (simp add: wrapped_quotient_def total_micros_def seconds_def micros_def Time_of_def)
  have 3: "\<exists>r. op_div t d = Inr r \<and> op_div_assign t d = Inr r \<and> seconds r = 0
         \<and> uint (micros r) = wrapped_quotient t (uint d)
         \<and> (2 \<le> uint d \<longrightarrow>
              sint (micros r) = wrapped_quotient t (uint d) \<and> 0 \<le> sint (micros r))"
    if "sint (seconds t) < 0" "0 < uint d" "uint d < 2 ^ 31"
    using div_negative_seconds [OF that(1) uint_in_int_range(2) [OF that(2,3)]]
    by (simp only: op_div_eq uint_in_int_range(1) [OF that(2,3)]) simp
  show ?thesis
    using 1 2 3 div_negative_seconds [of t d] by blast
qed

theorem div_negative_wraps_witness:
  "sint (seconds (Time_of (- 1) 0)) < 0 \<and> 0 < sint (2 :: cint) \<and> 2 \<le> sint (2 :: cint)
 \<and> 0 < uint (2 :: cuint) \<and> uint (2 :: cuint) < 2 ^ 31 \<and> 2 \<le> uint (2 :: cuint)
 \<and> op_div_assign (Time_of (- 1) 0) 2 = Inr (Time_of 0 9223372036854275808)
 \<and> op_div (Time_of (- 1) 0) 2 = Inr (Time_of 0 9223372036854275808)
 \<and> sint (micros (Time_of 0 9223372036854275808)) = 9223372036854275808
 \<and> wrapped_quotient (Time_of (- 1) 0) 2 = 9223372036854275808"
  using div_negative_wraps [of "Time_of (- 1) 0" 2]
  by (simp add: div_eval wrapped_quotient_def total_micros_def seconds_def micros_def)

section \<open>Rendering a duration\<close>


lemma op_fields [simp]:
  "buf (setw n os) = buf os" "width (setw n os) = n" "fill (setw n os) = fill os"
  "adjust (setw n os) = adjust os"
  "buf (setfill c os) = buf os" "width (setfill c os) = width os" "fill (setfill c os) = c"
  "adjust (setfill c os) = adjust os"
  "buf (set_right os) = buf os" "width (set_right os) = width os" "fill (set_right os) = fill os"
  "adjust (set_right os) = adjust_right"
  by (simp_all add: setw_def setfill_def set_right_def)

lemma put_fields [simp]:
  "buf (put_char c os) = buf os @ pad os 0 [c]" "width (put_char c os) = 0"
  "fill (put_char c os) = fill os" "adjust (put_char c os) = adjust os"
  "buf (put_string s os) = buf os @ pad os 0 s" "width (put_string s os) = 0"
  "fill (put_string s os) = fill os" "adjust (put_string s os) = adjust os"
  "buf (put_ulong n os) = buf os @ pad os 0 (decimal (unat n))" "width (put_ulong n os) = 0"
  "fill (put_ulong n os) = fill os" "adjust (put_ulong n os) = adjust os"
  by (simp_all add: put_char_def put_string_def put_ulong_def insert_text_def)

lemma init_fields [simp]:
  "buf ostream_init = []" "width ostream_init = 0"
  by (simp_all add: ostream_init_def)

lemma pad_simps [simp]:
  "width os = 0 \<Longrightarrow> pad os k s = s"
  "adjust os = adjust_right \<Longrightarrow> width os = w \<Longrightarrow> fill os = CHR ''0'' \<Longrightarrow> pad os k s = zero_pad w s"
  by (cases "adjust os"; simp add: pad_def zero_pad_def)+

lemma put_long_fields:
  "0 \<le> sint n \<Longrightarrow> buf (put_long n os) = buf os @ pad os 0 (decimal (nat (sint n)))"
  by (simp add: put_long_def insert_text_def)




lemma put_long_other [simp]:
  "width (put_long n os) = 0" "fill (put_long n os) = fill os"
  "adjust (put_long n os) = adjust os"
  by (simp_all add: put_long_def insert_text_def)

lemma render_no_days:
  assumes "tv_sec (Duration_t d) div DAY = 0"
      and "0 \<le> sint (tv_usec (Duration_t d))"
      and "0 \<le> sint (tv_sec (Duration_t d) mod HOUR mod MINUTE)"
  shows "render d =
     decimal (unat (tv_sec (Duration_t d) div HOUR)) @ '':''
     @ zero_pad 2 (decimal (unat (tv_sec (Duration_t d) mod HOUR div MINUTE))) @ '':''
     @ zero_pad 2 (decimal (nat (sint (tv_sec (Duration_t d) mod HOUR mod MINUTE))))
     @ (if Duration_su d then ''.'' @ zero_pad 6 (decimal (nat (sint (tv_usec (Duration_t d)))))
        else [])"
  using assms
  by (simp add: render_def insert_Duration_def Let_def put_long_fields)

lemma render_days:
  assumes "tv_sec (Duration_t d) div DAY \<noteq> 0"
      and "0 \<le> sint (tv_usec (Duration_t d))"
      and "0 \<le> sint (tv_sec (Duration_t d) mod DAY mod HOUR mod MINUTE)"
  shows "render d =
     decimal (unat (tv_sec (Duration_t d) div DAY)) @ ''d ''
     @ decimal (unat (tv_sec (Duration_t d) mod DAY div HOUR)) @ '':''
     @ zero_pad 2 (decimal (unat (tv_sec (Duration_t d) mod DAY mod HOUR div MINUTE))) @ '':''
     @ zero_pad 2 (decimal (nat (sint (tv_sec (Duration_t d) mod DAY mod HOUR mod MINUTE))))
     @ (if Duration_su d then ''.'' @ zero_pad 6 (decimal (nat (sint (tv_usec (Duration_t d)))))
        else [])"
  using assms
  by (simp add: render_def insert_Duration_def Let_def put_long_fields)


lemma unat_consts: "unat DAY = 86400" "unat HOUR = 3600" "unat MINUTE = 60"
  by (simp_all add: DAY_def HOUR_def MINUTE_def)

lemma sint_below_minute:
  fixes x :: long
  shows "sint (x mod MINUTE) = int (unat x mod 60)"
proof -
  have u: "unat (x mod MINUTE) = unat x mod 60"
    by (simp add: unat_mod unat_consts)
  have "unat x mod 60 < 2 ^ 63"
    by (rule less_trans [of _ 60]) simp_all
  then have "unat (x mod MINUTE) < 2 ^ 63"
    by (simp only: u)
  then have "sint (x mod MINUTE) = int (unat (x mod MINUTE))"
    by (rule unat_small_sint)
  then show ?thesis
    by (simp only: u)
qed

lemma render_spec_unat:
  assumes "0 \<le> sint (tv_usec (Duration_t d))"
  shows "render d = spec_render (unat (tv_sec (Duration_t d)))
           (nat (sint (tv_usec (Duration_t d)))) (Duration_su d)"
proof (cases "tv_sec (Duration_t d) div DAY = 0")
  case True
  then have "unat (tv_sec (Duration_t d) div DAY) = 0"
    by simp
  then have z: "unat (tv_sec (Duration_t d)) div 86400 = 0"
    by (simp add: unat_div unat_consts)
  have nn: "0 \<le> sint (tv_sec (Duration_t d) mod HOUR mod MINUTE)"
    by (simp add: sint_below_minute)
  show ?thesis
    unfolding render_no_days [OF True assms nn] spec_render_def Let_def
    using z by (simp add: sint_below_minute unat_div unat_mod unat_consts)
next
  case False
  then have "unat (tv_sec (Duration_t d) div DAY) \<noteq> 0"
    by (simp add: unat_eq_0)
  then have z: "0 < unat (tv_sec (Duration_t d)) div 86400"
    by (simp add: unat_div unat_consts)
  have nn: "0 \<le> sint (tv_sec (Duration_t d) mod DAY mod HOUR mod MINUTE)"
    by (simp add: sint_below_minute)
  show ?thesis
    unfolding render_days [OF False assms nn] spec_render_def Let_def
    using z by (simp add: sint_below_minute unat_div unat_mod unat_consts)
qed

lemma spec_ex: "spec_render 90000 250000 True = ''1d 1:00:00.250000''"
  by (simp add: spec_render_def zero_pad_def decimal.simps digit_def)

lemma render_3661: "render (Duration_of (Time_of 3661 0) False) = ''1:01:01''"
  by (simp add: render_spec_unat Duration_of_def Time_of_def)
     (simp add: spec_render_def zero_pad_def decimal.simps digit_def)

lemma render_90000: "render (Duration_of (Time_of 90000 0) False) = ''1d 1:00:00''"
  by (simp add: render_spec_unat Duration_of_def Time_of_def)
     (simp add: spec_render_def zero_pad_def decimal.simps digit_def)

lemma render_5_250000: "render (Duration_of (Time_of 5 250000) True) = ''0:00:05.250000''"
  by (simp add: render_spec_unat Duration_of_def Time_of_def)
     (simp add: spec_render_def zero_pad_def decimal.simps digit_def)

text \<open>
  Claim C2, as stated, fails: the hours are written without a field width, so they
  are not padded to two digits, and none of the three texts of the claim is what the
  inserter writes.
\<close>

theorem render_examples_counterexample:
  "render (Duration_of (Time_of 3661 0) False) \<noteq> ''01:01:01''
 \<and> render (Duration_of (Time_of 90000 0) False) \<noteq> ''1d 01:00:00''
 \<and> render (Duration_of (Time_of 5 250000) True) \<noteq> ''00:00:05.250000''"
  by (simp add: render_3661 render_90000 render_5_250000)

text \<open>
  Claim C2, amended. A \<open>Duration\<close> with non-negative fields is rendered as the days
  (when there are any), the hours in their natural number of digits, the minutes and
  the seconds in two digits and, when asked for, the microseconds in six:
  \<open>Duration(Time(3661,0))\<close> renders \<open>1:01:01\<close>, \<open>Duration(Time(90000,0))\<close> renders
  \<open>1d 1:00:00\<close> and \<open>Duration(Time(5,250000), true)\<close> renders \<open>0:00:05.250000\<close>.
\<close>

theorem render_duration:
  "(0 \<le> sint (tv_sec (Duration_t d)) \<and> 0 \<le> sint (tv_usec (Duration_t d)) \<longrightarrow>
      render d = spec_render (nat (sint (tv_sec (Duration_t d))))
                   (nat (sint (tv_usec (Duration_t d)))) (Duration_su d))
 \<and> render (Duration_of (Time_of 3661 0) False) = ''1:01:01''
 \<and> render (Duration_of (Time_of 90000 0) False) = ''1d 1:00:00''
 \<and> render (Duration_of (Time_of 5 250000) True) = ''0:00:05.250000''"
proof -
  have "render d = spec_render (nat (sint (tv_sec (Duration_t d))))
                   (nat (sint (tv_usec (Duration_t d)))) (Duration_su d)"
    if "0 \<le> sint (tv_sec (Duration_t d))" and "0 \<le> sint (tv_usec (Duration_t d))"
  proof -
    have "uint (tv_sec (Duration_t d)) = sint (tv_sec (Duration_t d))"
      using that(1) by (rule sint_nonneg_uint)
    then have "nat (uint (tv_sec (Duration_t d))) = nat (sint (tv_sec (Duration_t d)))"
      by (simp only:)
    then have "unat (tv_sec (Duration_t d)) = nat (sint (tv_sec (Duration_t d)))"
      by (simp only: unat_eq_nat_uint)
    then show ?thesis
      using render_spec_unat [OF that(2)] by (simp only:)
  qed
  then show ?thesis
    by (simp add: render_3661 render_90000 render_5_250000)
qed

theorem render_duration_witness:
  "0 \<le> sint (tv_sec (Duration_t (Duration_of (Time_of 90000 250000) True)))
 \<and> 0 \<le> sint (tv_usec (Duration_t (Duration_of (Time_of 90000 250000) True)))
 \<and> render (Duration_of (Time_of 90000 250000) True) = ''1d 1:00:00.250000''"
  using render_duration [of "Duration_of (Time_of 90000 250000) True"]
  by (simp add: Duration_of_def Time_of_def spec_ex)

section \<open>A \<open>Duration\<close> holds a copy\<close>

lemma time_at_Inr: "time_at st p = Inr t \<longleftrightarrow> st p = Some (TimeObj t)"
  by (simp add: time_at_def split: option.splits object.splits)

lemma mutate_frame:
  assumes "mutate st p m = Inr st'" "q \<noteq> p"
  shows "st' q = st q"
  using assms by (auto simp: mutate_def split: sum.splits)

lemma mutate_receiver:
  assumes "mutate st p m = Inr st'"
  shows "\<exists>t t'. st p = Some (TimeObj t) \<and> st' p = Some (TimeObj t')"
  using assms by (auto simp: mutate_def time_at_Inr split: sum.splits)

lemma mutate_duration_at:
  assumes "mutate st p m = Inr st'"
  shows "duration_at st' q = duration_at st q"
proof (cases "q = p")
  case True
  then show ?thesis
    using mutate_receiver [OF assms] by (auto simp: duration_at_def)
next
  case False
  then show ?thesis
    using mutate_frame [OF assms] by (simp add: duration_at_def)
qed

lemma mutate_all_duration_at:
  "mutate_all st ms = Inr st' \<Longrightarrow> duration_at st' q = duration_at st q"
proof (induction ms arbitrary: st)
  case Nil
  then show ?case by simp
next
  case (Cons pm ms)
  obtain p m where pm: "pm = (p, m)"
    by (cases pm)
  from Cons.prems pm obtain st1 where
    1: "mutate st p m = Inr st1" and 2: "mutate_all st1 ms = Inr st'"
    by (auto split: sum.splits)
  from Cons.IH [OF 2] mutate_duration_at [OF 1] show ?case
    by simp
qed

text \<open>
  Claim C9. A \<open>Duration\<close> constructed at \<open>q\<close> from the \<open>Time\<close> \<open>t\<close> at \<open>p\<close> holds the fields
  of \<open>t\<close>. After any sequence of \<open>+=\<close>, \<open>-=\<close>, \<open>*=\<close>, \<open>/=\<close>, assignments and clock
  settings on \<open>Time\<close> objects, the one at \<open>p\<close> among them, it still holds them, and it is
  rendered as before.
\<close>

theorem Duration_is_a_copy:
  assumes "time_at st p = Inr t"
      and "new_Duration st p showMicros q = Inr st1"
      and "mutate_all st1 ms = Inr st2"
  shows "duration_at st1 q = Some (Duration_of t showMicros)
       \<and> duration_at st2 q = Some (Duration_of t showMicros)
       \<and> render_at st2 q = render_at st1 q
       \<and> render_at st2 q = Some (render (Duration_of t showMicros))"
proof -
  have 1: "duration_at st1 q = Some (Duration_of t showMicros)"
    using assms(1,2) by (auto simp: new_Duration_def duration_at_def)
  have 2: "duration_at st2 q = duration_at st1 q"
    using assms(3) by (rule mutate_all_duration_at)
  show ?thesis
    using 1 2 by (simp add: render_at_def)
qed

theorem Duration_is_a_copy_witness:
  "time_at [0 \<mapsto> TimeObj (Time_of 3661 0)] 0 = Inr (Time_of 3661 0)
 \<and> new_Duration [0 \<mapsto> TimeObj (Time_of 3661 0)] 0 False 1
     = Inr [0 \<mapsto> TimeObj (Time_of 3661 0), 1 \<mapsto> DurationObj (Duration_of (Time_of 3661 0) False)]
 \<and> mutate_all [0 \<mapsto> TimeObj (Time_of 3661 0), 1 \<mapsto> DurationObj (Duration_of (Time_of 3661 0) False)]
      [(0, AddAssign 0), (0, MulAssign 3), (0, DivAssign 2), (0, SubAssign 0), (0, Assign 0),
       (0, Future \<lparr>tv_sec = 5, tv_usec = 7\<rparr> 1), (0, Past \<lparr>tv_sec = 5, tv_usec = 7\<rparr> 2),
       (0, Now \<lparr>tv_sec = 5, tv_usec = 7\<rparr>)]
     = Inr [1 \<mapsto> DurationObj (Duration_of (Time_of 3661 0) False), 0 \<mapsto> TimeObj (Time_of 5 7)]
 \<and> render_at [1 \<mapsto> DurationObj (Duration_of (Time_of 3661 0) False), 0 \<mapsto> TimeObj (Time_of 5 7)] 1
     = Some ''1:01:01''"
proof -
  let ?t = "Time_of 3661 0"
  let ?st = "[0 \<mapsto> TimeObj ?t]"
  let ?st1 = "[0 \<mapsto> TimeObj ?t, 1 \<mapsto> DurationObj (Duration_of ?t False)]"
  let ?st2 = "[1 \<mapsto> DurationObj (Duration_of ?t False), 0 \<mapsto> TimeObj (Time_of 5 7)]"
  have a: "time_at ?st 0 = Inr ?t"
    by (simp add: time_at_def)
  have b: "new_Duration ?st 0 False 1 = Inr ?st1"
    by (simp add: new_Duration_def time_at_def)
  have c: "mutate_all ?st1 [(0, AddAssign 0), (0, MulAssign 3), (0, DivAssign 2), (0, SubAssign 0), (0, Assign 0),
       (0, Future \<lparr>tv_sec = 5, tv_usec = 7\<rparr> 1), (0, Past \<lparr>tv_sec = 5, tv_usec = 7\<rparr> 2),
       (0, Now \<lparr>tv_sec = 5, tv_usec = 7\<rparr>)] = Inr ?st2"
    by (simp add: mutate_def time_at_def now_def future_def past_def Time_of_def
        op_add_assign_def op_sub_assign_def op_mul_assign_def op_div_assign_def op_assign_def
        timeradd_def timersub_def Time_default_def MAX_USECS_def fun_upd_twist)
  have "render_at ?st2 1 = Some (render (Duration_of ?t False))"
    using Duration_is_a_copy [OF a b c] by blast
  then have d: "render_at ?st2 1 = Some ''1:01:01''"
    by (simp only: render_3661)
  show ?thesis
    using a b c d by blast
qed


end
